theory Spec2Isabelle
  imports Main
begin

section \<open>Data model\<close>

text \<open>
  The tables of \<^verbatim>\<open>backend/models.py\<close>. A column declared \<^verbatim>\<open>nullable=False\<close>
  still has an option type here, because the Python object can hold \<^verbatim>\<open>None\<close> until
  the commit; the commit functions below reject it, as the NOT NULL constraint does.
  Primary keys and ranks are never negative and are naturals. The column
  \<^verbatim>\<open>retrieved_at\<close> of \<^verbatim>\<open>user_top_tracks\<close> is filled by a column default when the row
  is flushed and is read by nothing; it is left out.
  A \<^verbatim>\<open>datetime\<close> is the number of microseconds since the epoch, between
  \<^verbatim>\<open>datetime.min\<close> (year 1) and \<^verbatim>\<open>datetime.max\<close> (the end of year 9999); a
  \<^verbatim>\<open>timedelta\<close> is a number of microseconds of at most 999999999 days either way.
  Building a \<^verbatim>\<open>timedelta\<close> beyond that, and adding one to a \<^verbatim>\<open>datetime\<close> past either
  end, raises \<^verbatim>\<open>OverflowError\<close>.
\<close>

type_synonym datetime = int

record audio_feature =
  af_id :: "string option"
  af_values :: "(string \<times> int) list"

record user =
  u_id :: nat
  spotify_user_id :: string
  display_name :: "string option"
  access_token :: "string option"
  refresh_token :: "string option"
  token_expires :: "datetime option"

record track =
  t_id :: nat
  spotify_track_id :: string
  name :: string
  artist :: string
  album :: string
  audio_features :: "audio_feature option"

record user_top_track =
  utt_id :: nat
  user_id :: nat
  track_id :: nat
  rank :: nat

section \<open>The external services\<close>

text \<open>
  The JSON documents the application reads, typed by the keys it reads from them. A
  key of the token document, and the \<^verbatim>\<open>audio_features\<close> key, is absent, holds
  \<^verbatim>\<open>null\<close>, or holds a value: \<^verbatim>\<open>d[k]\<close>, \<^verbatim>\<open>d.get(k)\<close>, \<^verbatim>\<open>d.get(k, default)\<close> and
  \<^verbatim>\<open>k in d\<close> tell the three apart differently. In \<open>profile\<close> a field is \<open>None\<close>
  when the key is absent. An entry of the feature list is \<open>None\<close> for a JSON
  \<^verbatim>\<open>null\<close>.
\<close>

datatype 'a field = Absent | Null | Val 'a

record token_json =
  tj_access_token :: "string field"
  tj_refresh_token :: "string field"
  tj_expires_in :: "int field"

text \<open>\<^verbatim>\<open>d.get(k)\<close> and \<^verbatim>\<open>d[k]\<close>.\<close>

definition dict_get :: "'a field \<Rightarrow> 'a option" where
  "dict_get f = (case f of Val v \<Rightarrow> Some v | _ \<Rightarrow> None)"

record profile =
  p_id :: "string option"
  p_display_name :: "string option"

record item =
  item_id :: string
  item_name :: string
  item_artists :: "string list"
  item_album :: string

datatype body =
    Text string
  | TokenJson token_json
  | ProfileJson profile
  | TopTracksJson "item list option"
  | AudioFeaturesJson "audio_feature option list field"
  | OtherJson string

record response =
  status_code :: nat
  content :: body

datatype param = PInt int | PStr string

datatype grant = AuthorizationCode string | RefreshToken "string option"

datatype call =
    PostToken grant
  | GetApi string "string option" "(string \<times> param) list"

datatype error =
    HTTPException nat string
  | HTTPError response
  | RequestException
  | Exception string
  | ValueError
  | KeyError string
  | TypeError
  | AttributeError
  | IndexError
  | OverflowError
  | IntegrityError
  | InvalidRequestError

definition datetime_min :: datetime where
  "datetime_min = - 62135596800000000"

definition datetime_max :: datetime where
  "datetime_max = 253402300799999999"

definition timedelta :: "int \<Rightarrow> error + int" where
  "timedelta seconds =
     (if - 999999999 \<le> seconds div 86400 \<and> seconds div 86400 \<le> 999999999
      then Inr (seconds * 1000000) else Inl OverflowError)"

definition datetime_add :: "datetime \<Rightarrow> int \<Rightarrow> error + datetime" where
  "datetime_add d delta =
     (if datetime_min \<le> d + delta \<and> d + delta \<le> datetime_max then Inr (d + delta)
      else Inl OverflowError)"

text \<open>\<^verbatim>\<open>now + timedelta(seconds=n)\<close>.\<close>

definition plus_seconds :: "datetime \<Rightarrow> int \<Rightarrow> error + datetime" where
  "plus_seconds now n =
     (case timedelta n of Inl e \<Rightarrow> Inl e | Inr delta \<Rightarrow> datetime_add now delta)"

text \<open>
  The world outside the process: the clock, read by \<^verbatim>\<open>datetime.utcnow()\<close>, and the
  HTTP services, reached through \<^verbatim>\<open>requests\<close>. \<open>send\<close> gives \<open>Inl\<close> when
  \<^verbatim>\<open>requests\<close> itself raises. The state is the database, the log of the requests
  sent so far and the number of clock readings taken.
\<close>

record world =
  utcnow_at :: "nat \<Rightarrow> datetime"
  send :: "call \<Rightarrow> error + response"

record state =
  users :: "user list"
  tracks :: "track list"
  user_top_tracks :: "user_top_track list"
  calls :: "call list"
  clock_reads :: nat

definition utcnow :: "world \<Rightarrow> state \<Rightarrow> datetime \<times> state" where
  "utcnow w s = (utcnow_at w (clock_reads s), s\<lparr>clock_reads := Suc (clock_reads s)\<rparr>)"

definition request :: "world \<Rightarrow> state \<Rightarrow> call \<Rightarrow> (error + response) \<times> state" where
  "request w s c = (send w c, s\<lparr>calls := calls s @ [c]\<rparr>)"

text \<open>\<^verbatim>\<open>Response.ok\<close>: \<^verbatim>\<open>raise_for_status\<close> raises for the statuses 400 to 599.\<close>

definition ok :: "response \<Rightarrow> bool" where
  "ok r = (\<not> (400 \<le> status_code r \<and> status_code r < 600))"

section \<open>Strings\<close>



fun str_startswith :: "string \<Rightarrow> string \<Rightarrow> bool" where
  "str_startswith t [] = True"
| "str_startswith [] (p # ps) = False"
| "str_startswith (x # xs) (p # ps) = (x = p \<and> str_startswith xs ps)"



fun str_join :: "string \<Rightarrow> string list \<Rightarrow> string" where
  "str_join sep [] = []"
| "str_join sep [x] = x"
| "str_join sep (x # y # ys) = x @ sep @ str_join sep (y # ys)"



section \<open>The API client (backend/spotify_client.py)\<close>

definition SPOTIFY_API_BASE :: string where
  "SPOTIFY_API_BASE = ''https://api.spotify.com/v1''"

text \<open>
  \<^verbatim>\<open>resp.json()\<close> of a token response, read as the three keys the application uses:
  a body that is not JSON raises, a JSON object of another shape has none of the keys.
\<close>

definition json_token :: "body \<Rightarrow> error + token_json" where
  "json_token b =
     (case b of
        Text _ \<Rightarrow> Inl ValueError
      | TokenJson t \<Rightarrow> Inr t
      | _ \<Rightarrow> Inr \<lparr>tj_access_token = Absent, tj_refresh_token = Absent,
                  tj_expires_in = Absent\<rparr>)"

text \<open>
  What the two token functions make of the answer to their POST:
  \<^verbatim>\<open>resp.raise_for_status(); return resp.json()\<close>.
\<close>

definition token_reply :: "error + response \<Rightarrow> error + token_json" where
  "token_reply r =
     (case r of
        Inl e \<Rightarrow> Inl e
      | Inr resp \<Rightarrow> if ok resp then json_token (content resp) else Inl (HTTPError resp))"

definition post_token :: "world \<Rightarrow> state \<Rightarrow> grant \<Rightarrow> (error + token_json) \<times> state" where
  "post_token w s g = (case request w s (PostToken g) of (r, s') \<Rightarrow> (token_reply r, s'))"

definition exchange_code_for_token ::
    "world \<Rightarrow> state \<Rightarrow> string \<Rightarrow> (error + token_json) \<times> state" where
  "exchange_code_for_token w s code = post_token w s (AuthorizationCode code)"

definition refresh_access_token ::
    "world \<Rightarrow> state \<Rightarrow> string option \<Rightarrow> (error + token_json) \<times> state" where
  "refresh_access_token w s refresh = post_token w s (RefreshToken refresh)"

text \<open>
  \<^verbatim>\<open>api_get\<close>: the path gets its leading slash, the request is sent, and a response
  that is not \<^verbatim>\<open>ok\<close> is raised as a \<^verbatim>\<open>requests.HTTPError\<close> built with
  \<^verbatim>\<open>response=r\<close>, which holds the status code and the body (the message string of
  the exception is not modelled). An accepted response gives \<^verbatim>\<open>r.json()\<close>, or
  \<^verbatim>\<open>r.text\<close> when the body is not JSON.
\<close>

definition api_url :: "string \<Rightarrow> string" where
  "api_url path = SPOTIFY_API_BASE @ (if str_startswith path ''/'' then path else ''/'' @ path)"

definition api_reply :: "error + response \<Rightarrow> error + body" where
  "api_reply r =
     (case r of
        Inl e \<Rightarrow> Inl e
      | Inr resp \<Rightarrow> if \<not> ok resp then Inl (HTTPError resp) else Inr (content resp))"

definition api_get ::
    "world \<Rightarrow> state \<Rightarrow> string \<Rightarrow> string option \<Rightarrow> (string \<times> param) list \<Rightarrow>
     (error + body) \<times> state" where
  "api_get w s path token params =
     (case request w s (GetApi (api_url path) token params) of (r, s') \<Rightarrow> (api_reply r, s'))"

definition get_user_profile ::
    "world \<Rightarrow> state \<Rightarrow> string option \<Rightarrow> (error + body) \<times> state" where
  "get_user_profile w s token = api_get w s ''/me'' token []"

definition get_user_top_tracks ::
    "world \<Rightarrow> state \<Rightarrow> string option \<Rightarrow> int \<Rightarrow> (error + body) \<times> state" where
  "get_user_top_tracks w s token limit =
     api_get w s ''/me/top/tracks'' token
       [(''limit'', PInt limit), (''time_range'', PStr ''medium_term'')]"


text \<open>
  \<^verbatim>\<open>get_audio_features\<close> catches every exception of the request and answers
  \<^verbatim>\<open>{"audio_features": None}\<close> instead.
\<close>

definition get_audio_features ::
    "world \<Rightarrow> state \<Rightarrow> string option \<Rightarrow> string list \<Rightarrow> body \<times> state" where
  "get_audio_features w s token track_ids =
     (case api_get w s ''/audio-features'' token
             [(''ids'', PStr (str_join '','' track_ids))] of
        (Inl e, s') \<Rightarrow> (AudioFeaturesJson Null, s')
      | (Inr b, s') \<Rightarrow> (b, s'))"

text \<open>
  The second client module, \<^verbatim>\<open>spotify_client.py\<close> at the top of the repository,
  which the application does not import: its \<^verbatim>\<open>api_get\<close> raises a plain exception
  on 401, and \<^verbatim>\<open>r.json()\<close> is not guarded.
\<close>

definition api_get_toplevel ::
    "world \<Rightarrow> state \<Rightarrow> string \<Rightarrow> string option \<Rightarrow> (string \<times> param) list \<Rightarrow>
     (error + body) \<times> state" where
  "api_get_toplevel w s path token params =
     (case request w s (GetApi (SPOTIFY_API_BASE @ path) token params) of
        (Inl e, s') \<Rightarrow> (Inl e, s')
      | (Inr r, s') \<Rightarrow>
          if status_code r = 401 then (Inl (Exception ''Unauthorized - token may be expired''), s')
          else if \<not> ok r then (Inl (HTTPError r), s')
          else (case content r of Text _ \<Rightarrow> (Inl ValueError, s') | b \<Rightarrow> (Inr b, s')))"

section \<open>The application (app.py)\<close>

text \<open>
  What the application reads from the documents the client returns. A \<^verbatim>\<open>dict\<close>
  of another shape has none of the keys; a \<^verbatim>\<open>str\<close> (a body that was not JSON) has
  no \<^verbatim>\<open>.get\<close> and no string subscripts.
\<close>

definition get_items :: "body \<Rightarrow> error + item list" where
  "get_items b =
     (case b of
        TopTracksJson (Some xs) \<Rightarrow> Inr xs
      | Text _ \<Rightarrow> Inl AttributeError
      | _ \<Rightarrow> Inr [])"

definition get_audio_features_list :: "body \<Rightarrow> error + audio_feature option list option" where
  "get_audio_features_list b =
     (case b of
        AudioFeaturesJson Null \<Rightarrow> Inr None
      | AudioFeaturesJson (Val afs) \<Rightarrow> Inr (Some afs)
      | Text _ \<Rightarrow> Inl AttributeError
      | _ \<Rightarrow> Inr (Some []))"

definition profile_id :: "body \<Rightarrow> error + string" where
  "profile_id b =
     (case b of
        ProfileJson p \<Rightarrow> (case p_id p of None \<Rightarrow> Inl (KeyError ''id'') | Some i \<Rightarrow> Inr i)
      | Text _ \<Rightarrow> Inl TypeError
      | _ \<Rightarrow> Inl (KeyError ''id''))"

definition profile_display_name :: "body \<Rightarrow> string option" where
  "profile_display_name b = (case b of ProfileJson p \<Rightarrow> p_display_name p | _ \<Rightarrow> None)"

subsection \<open>Storage\<close>

text \<open>
  \<^verbatim>\<open>db.query(...).filter(...).first()\<close> is the first matching row. A new row gets the
  next integer primary key. A commit writes the object's fields to its row, unless a
  NOT NULL column (\<^verbatim>\<open>access_token\<close>, \<^verbatim>\<open>refresh_token\<close>) would hold \<^verbatim>\<open>None\<close>, which
  fails the commit and leaves the table as it was.

  An object loaded by a query belongs to the session that ran the query for as long
  as that session lives. \<^verbatim>\<open>Session.add\<close> of another session refuses such an object
  with \<^verbatim>\<open>InvalidRequestError\<close> (it is already attached to a session); it accepts an
  object that belongs to no session.
\<close>

datatype attachment = Attached | Detached

definition session_add :: "attachment \<Rightarrow> error + unit" where
  "session_add a = (case a of Attached \<Rightarrow> Inl InvalidRequestError | Detached \<Rightarrow> Inr ())"

definition next_id :: "nat list \<Rightarrow> nat" where
  "next_id ids = Suc (fold max ids 0)"

definition find_user :: "state \<Rightarrow> string \<Rightarrow> user option" where
  "find_user s uid = find (\<lambda>u. spotify_user_id u = uid) (users s)"

definition find_track :: "state \<Rightarrow> string \<Rightarrow> track option" where
  "find_track s tid = find (\<lambda>t. spotify_track_id t = tid) (tracks s)"

definition not_null_ok :: "user \<Rightarrow> bool" where
  "not_null_ok u = (access_token u \<noteq> None \<and> refresh_token u \<noteq> None)"

definition commit_user :: "state \<Rightarrow> user \<Rightarrow> error + state" where
  "commit_user s u =
     (if not_null_ok u
      then Inr (s\<lparr>users := map (\<lambda>r. if u_id r = u_id u then u else r) (users s)\<rparr>)
      else Inl IntegrityError)"

definition insert_user ::
    "state \<Rightarrow> string \<Rightarrow> string option \<Rightarrow> string option \<Rightarrow> string option \<Rightarrow>
     datetime option \<Rightarrow> error + state" where
  "insert_user s suid dn access refresh expires =
     (let u = \<lparr>u_id = next_id (map u_id (users s)), spotify_user_id = suid,
                display_name = dn, access_token = access, refresh_token = refresh,
                token_expires = expires\<rparr>
      in if not_null_ok u then Inr (s\<lparr>users := users s @ [u]\<rparr>) else Inl IntegrityError)"

subsection \<open>The callback\<close>

text \<open>\<^verbatim>\<open>a or b\<close> on optional strings: \<^verbatim>\<open>None\<close> and the empty string are false.\<close>

definition or_else :: "string option \<Rightarrow> string option \<Rightarrow> string option" where
  "or_else a b = (case a of None \<Rightarrow> b | Some x \<Rightarrow> if x = [] then b else Some x)"

text \<open>\<^verbatim>\<open>int(token_json.get("expires_in", 3600))\<close>; \<^verbatim>\<open>int(None)\<close> raises.\<close>

definition int_expires_in :: "token_json \<Rightarrow> error + int" where
  "int_expires_in tj =
     (case tj_expires_in tj of Absent \<Rightarrow> Inr 3600 | Null \<Rightarrow> Inl TypeError | Val n \<Rightarrow> Inr n)"

text \<open>
  \<^verbatim>\<open>datetime.utcnow() + timedelta(seconds=int(expires_in))\<close>: the clock is read first,
  then the lifetime is converted and added.
\<close>

definition expiry_from_now ::
    "world \<Rightarrow> state \<Rightarrow> token_json \<Rightarrow> (error + datetime) \<times> state" where
  "expiry_from_now w s tj =
     (case utcnow w s of
        (now, s1) \<Rightarrow>
          (case int_expires_in tj of
             Inl e \<Rightarrow> (Inl e, s1)
           | Inr n \<Rightarrow> (plus_seconds now n, s1)))"

text \<open>
  \<^verbatim>\<open>auth_callback\<close> queries and commits in one session, so its object is the
  session's own.
\<close>

definition auth_callback ::
    "world \<Rightarrow> state \<Rightarrow> string option \<Rightarrow> string option \<Rightarrow> (error + string) \<times> state" where
  "auth_callback w s code st =
     (case code of
        None \<Rightarrow> (Inl (HTTPException 400 ''Missing code in callback''), s)
      | Some c \<Rightarrow>
          (case exchange_code_for_token w s c of
             (Inl e, s1) \<Rightarrow> (Inl e, s1)
           | (Inr tj, s1) \<Rightarrow>
               if tj_access_token tj = Absent then (Inl (KeyError ''access_token''), s1)
               else
                 (let access = dict_get (tj_access_token tj);
                      refresh = dict_get (tj_refresh_token tj)
                  in case expiry_from_now w s1 tj of
                       (Inl e, s2) \<Rightarrow> (Inl e, s2)
                     | (Inr expires_at, s2) \<Rightarrow>
                         (case get_user_profile w s2 access of
                            (Inl e, s3) \<Rightarrow> (Inl e, s3)
                          | (Inr prof, s3) \<Rightarrow>
                              (case profile_id prof of
                                 Inl e \<Rightarrow> (Inl e, s3)
                               | Inr suid \<Rightarrow>
                                   (case (case find_user s3 suid of
                                            Some u \<Rightarrow>
                                              commit_user s3
                                                (u\<lparr>access_token := access,
                                                   refresh_token :=
                                                     or_else refresh (refresh_token u),
                                                   token_expires := Some expires_at\<rparr>)
                                          | None \<Rightarrow>
                                              insert_user s3 suid (profile_display_name prof)
                                                access refresh (Some expires_at)) of
                                      Inl e \<Rightarrow> (Inl e, s3)
                                    | Inr s4 \<Rightarrow> (Inr suid, s4)))))))"

subsection \<open>The token lifecycle\<close>

text \<open>
  \<^verbatim>\<open>ensure_valid_access_token\<close>. The clock is read once for the test (only when an
  expiry is stored: \<^verbatim>\<open>or\<close> does not evaluate its right side otherwise) and once more
  for the new expiry. The assignments are made on the Python object; the table changes
  at the commit only, so a failure before it leaves the stored row as it was.

  \<open>refreshed\<close> is the object after the assignments: the access token is
  \<^verbatim>\<open>token_json.get("access_token")\<close>, the expiry is computed from the second clock
  reading, and the refresh token is overwritten when the key is in the answer, with
  \<^verbatim>\<open>None\<close> when it holds \<^verbatim>\<open>null\<close>.

  The function then opens a session of its own and adds the object to it. The
  parameter \<open>att\<close> says whether the object still belongs to the session of the
  caller. Both callers in \<^verbatim>\<open>app.py\<close> pass the object their own open session has just
  loaded.
\<close>

definition refreshed :: "user \<Rightarrow> token_json \<Rightarrow> datetime \<Rightarrow> error + user" where
  "refreshed db_user tj now =
     (case int_expires_in tj of
        Inl e \<Rightarrow> Inl e
      | Inr n \<Rightarrow>
          (case plus_seconds now n of
             Inl e \<Rightarrow> Inl e
           | Inr expires \<Rightarrow>
               (let u1 = db_user\<lparr>access_token := dict_get (tj_access_token tj),
                                 token_expires := Some expires\<rparr>
                in if tj_refresh_token tj = Absent then Inr u1
                   else Inr (u1\<lparr>refresh_token := dict_get (tj_refresh_token tj)\<rparr>))))"

definition refresh_and_store ::
    "world \<Rightarrow> state \<Rightarrow> attachment \<Rightarrow> user \<Rightarrow> (error + string option) \<times> state" where
  "refresh_and_store w s att db_user =
     (case refresh_access_token w s (refresh_token db_user) of
        (Inl e, s1) \<Rightarrow> (Inl e, s1)
      | (Inr tj, s1) \<Rightarrow>
          (case utcnow w s1 of
             (now, s2) \<Rightarrow>
               (case refreshed db_user tj now of
                  Inl e \<Rightarrow> (Inl e, s2)
                | Inr u \<Rightarrow>
                    (case session_add att of
                       Inl e \<Rightarrow> (Inl e, s2)
                     | Inr _ \<Rightarrow>
                         (case commit_user s2 u of
                            Inl e \<Rightarrow> (Inl e, s2)
                          | Inr s3 \<Rightarrow> (Inr (access_token u), s3))))))"

definition ensure_valid_access_token ::
    "world \<Rightarrow> state \<Rightarrow> attachment \<Rightarrow> user \<Rightarrow> (error + string option) \<times> state" where
  "ensure_valid_access_token w s att db_user =
     (case token_expires db_user of
        None \<Rightarrow> refresh_and_store w s att db_user
      | Some e \<Rightarrow>
          (case utcnow w s of
             (now, s0) \<Rightarrow>
               (case plus_seconds now 60 of
                  Inl err \<Rightarrow> (Inl err, s0)
                | Inr limit \<Rightarrow>
                    if e \<le> limit then refresh_and_store w s0 att db_user
                    else (Inr (access_token db_user), s0))))"

text \<open>
  \<^verbatim>\<open>api_me\<close> is not modelled: in the file, the line that calls
  \<^verbatim>\<open>ensure_valid_access_token(user)\<close> ends with a stray letter \<^verbatim>\<open>a\<close>, so the function
  as written is not Python.
\<close>

subsection \<open>The ingestion pipeline\<close>

text \<open>
  The first loop of \<^verbatim>\<open>api_top_tracks\<close>: \<open>store_item\<close> is its body, with \<open>idx\<close> the
  index \<^verbatim>\<open>enumerate\<close> gives.
  Items are typed (every key the loop reads is there and holds a string), so the loop
  has no failing branch and what it adds is committed by the \<^verbatim>\<open>db.commit()\<close> after it.
\<close>

definition new_track :: "state \<Rightarrow> item \<Rightarrow> track" where
  "new_track s it =
     \<lparr>t_id = next_id (map t_id (tracks s)), spotify_track_id = item_id it,
      name = item_name it, artist = str_join '', '' (item_artists it),
      album = item_album it, audio_features = None\<rparr>"

definition store_item :: "state \<Rightarrow> nat \<Rightarrow> nat \<Rightarrow> item \<Rightarrow> state" where
  "store_item s uid idx it =
     (let (db_track, s1) =
            (case find_track s (item_id it) of
               Some t \<Rightarrow> (t, s)
             | None \<Rightarrow> (new_track s it, s\<lparr>tracks := tracks s @ [new_track s it]\<rparr>));
          utt = \<lparr>utt_id = next_id (map utt_id (user_top_tracks s1)), user_id = uid,
                 track_id = t_id db_track, rank = idx + 1\<rparr>
      in s1\<lparr>user_top_tracks := user_top_tracks s1 @ [utt]\<rparr>)"

fun store_items :: "state \<Rightarrow> nat \<Rightarrow> nat \<Rightarrow> item list \<Rightarrow> state" where
  "store_items s uid idx [] = s"
| "store_items s uid idx (it # its) = store_items (store_item s uid idx it) uid (Suc idx) its"

text \<open>
  The second loop. \<^verbatim>\<open>if not af\<close> skips \<^verbatim>\<open>null\<close> and the empty object. A record
  without \<^verbatim>\<open>id\<close> raises before the commit, so nothing of the loop is stored then.
\<close>

fun update_first :: "('a \<Rightarrow> bool) \<Rightarrow> ('a \<Rightarrow> 'a) \<Rightarrow> 'a list \<Rightarrow> 'a list" where
  "update_first P f [] = []"
| "update_first P f (x # xs) = (if P x then f x # xs else x # update_first P f xs)"

definition falsy :: "audio_feature option \<Rightarrow> bool" where
  "falsy af = (case af of None \<Rightarrow> True | Some a \<Rightarrow> af_id a = None \<and> af_values a = [])"

fun store_features :: "state \<Rightarrow> audio_feature option list \<Rightarrow> error + state" where
  "store_features s [] = Inr s"
| "store_features s (af # afs) =
     (if falsy af then store_features s afs
      else (case af of
              None \<Rightarrow> store_features s afs
            | Some a \<Rightarrow>
                (case af_id a of
                   None \<Rightarrow> Inl (KeyError ''id'')
                 | Some spotify_id \<Rightarrow>
                     store_features
                       (s\<lparr>tracks := update_first (\<lambda>t. spotify_track_id t = spotify_id)
                                      (\<lambda>t. t\<lparr>audio_features := Some a\<rparr>) (tracks s)\<rparr>)
                       afs)))"

text \<open>
  The block of \<^verbatim>\<open>api_top_tracks\<close> after the first commit: the feature request for
  the ids of the items, and the second loop over \<^verbatim>\<open>audio_features_json.get("audio_features", [])\<close>.
  Iterating over \<^verbatim>\<open>None\<close> raises a \<^verbatim>\<open>TypeError\<close>.
\<close>

definition fetch_audio_features ::
    "world \<Rightarrow> state \<Rightarrow> string option \<Rightarrow> item list \<Rightarrow> (error + unit) \<times> state" where
  "fetch_audio_features w s token items =
     (let track_ids = map item_id items
      in if track_ids = [] then (Inr (), s)
         else
           (case get_audio_features w s token track_ids of
              (audio_features_json, s1) \<Rightarrow>
                (case get_audio_features_list audio_features_json of
                   Inl e \<Rightarrow> (Inl e, s1)
                 | Inr None \<Rightarrow> (Inl TypeError, s1)
                 | Inr (Some af_list) \<Rightarrow>
                     (case store_features s1 af_list of
                        Inl e \<Rightarrow> (Inl e, s1)
                      | Inr s2 \<Rightarrow> (Inr (), s2)))))"

definition api_top_tracks ::
    "world \<Rightarrow> state \<Rightarrow> string \<Rightarrow> int \<Rightarrow> (error + nat) \<times> state" where
  "api_top_tracks w s uid limit =
     (case find_user s uid of
        None \<Rightarrow> (Inl (HTTPException 404 ''user not found''), s)
      | Some u \<Rightarrow>
          (case ensure_valid_access_token w s Attached u of
             (Inl e, s1) \<Rightarrow> (Inl e, s1)
           | (Inr token, s1) \<Rightarrow>
               (case get_user_top_tracks w s1 token limit of
                  (Inl e, s2) \<Rightarrow> (Inl e, s2)
                | (Inr top_tracks_json, s2) \<Rightarrow>
                    (case get_items top_tracks_json of
                       Inl e \<Rightarrow> (Inl e, s2)
                     | Inr items \<Rightarrow>
                         (case fetch_audio_features w (store_items s2 (u_id u) 0 items)
                                 token items of
                            (Inl e, s4) \<Rightarrow> (Inl e, s4)
                          | (Inr _, s4) \<Rightarrow> (Inr (length items), s4))))))"

section \<open>Reference definitions\<close>










text \<open>
  Names for what the token lifecycle claims speak of: the row stored under a primary
  key, the refresh exchange \<^verbatim>\<open>ensure_valid_access_token\<close> sends for a user and what
  the client makes of its answer, the clock reading the expiry is tested against,
  whether that test sends the call into a refresh, and the clock reading the new
  expiry is computed from.
\<close>

definition stored_user :: "state \<Rightarrow> nat \<Rightarrow> user option" where
  "stored_user s i = find (\<lambda>x. u_id x = i) (users s)"

definition refresh_call :: "user \<Rightarrow> call" where
  "refresh_call u = PostToken (RefreshToken (refresh_token u))"

definition refresh_reply :: "world \<Rightarrow> user \<Rightarrow> error + token_json" where
  "refresh_reply w u = token_reply (send w (refresh_call u))"

definition check_time :: "world \<Rightarrow> state \<Rightarrow> datetime" where
  "check_time w s = utcnow_at w (clock_reads s)"

definition needs_refresh :: "world \<Rightarrow> state \<Rightarrow> user \<Rightarrow> bool" where
  "needs_refresh w s u =
     (case token_expires u of
        None \<Rightarrow> True
      | Some e \<Rightarrow>
          (case plus_seconds (check_time w s) 60 of
             Inl _ \<Rightarrow> False
           | Inr limit \<Rightarrow> e \<le> limit))"

definition store_time :: "world \<Rightarrow> state \<Rightarrow> user \<Rightarrow> datetime" where
  "store_time w s u =
     utcnow_at w (case token_expires u of None \<Rightarrow> clock_reads s | Some _ \<Rightarrow> Suc (clock_reads s))"

text \<open>
  The requests the pipeline sends, and what a caller can read from a failure of
  \<^verbatim>\<open>api_get\<close>: \<^verbatim>\<open>e.response.status_code\<close> and the body of \<^verbatim>\<open>e.response\<close>, which only
  a \<^verbatim>\<open>requests.HTTPError\<close> has.
\<close>

definition top_tracks_call :: "string option \<Rightarrow> int \<Rightarrow> call" where
  "top_tracks_call token limit =
     GetApi (api_url ''/me/top/tracks'') token
       [(''limit'', PInt limit), (''time_range'', PStr ''medium_term'')]"

definition features_call :: "string option \<Rightarrow> string list \<Rightarrow> call" where
  "features_call token track_ids =
     GetApi (api_url ''/audio-features'') token [(''ids'', PStr (str_join '','' track_ids))]"

fun failure_status :: "error \<Rightarrow> nat option" where
  "failure_status (HTTPError r) = Some (status_code r)"
| "failure_status _ = None"

fun failure_body :: "error \<Rightarrow> body option" where
  "failure_body (HTTPError r) = Some (content r)"
| "failure_body _ = None"

definition is_unauthorized :: "error \<Rightarrow> bool" where
  "is_unauthorized e = (failure_status e = Some 401)"

subsection \<open>Sample inputs\<close>

text \<open>
  One stored account whose token expires 5000 seconds after the epoch, a clock that
  stands still, and token servers that answer every exchange with one document.
\<close>

definition sample_user :: user where
  "sample_user =
     \<lparr>u_id = 1, spotify_user_id = ''alice'', display_name = Some ''Alice'',
      access_token = Some ''old-access'', refresh_token = Some ''old-refresh'',
      token_expires = Some 5000000000\<rparr>"

definition sample_state :: state where
  "sample_state =
     \<lparr>users = [sample_user], tracks = [], user_top_tracks = [], calls = [], clock_reads = 0\<rparr>"

definition token_server :: "token_json \<Rightarrow> call \<Rightarrow> error + response" where
  "token_server tj c =
     (case c of
        PostToken _ \<Rightarrow> Inr \<lparr>status_code = 200, content = TokenJson tj\<rparr>
      | GetApi _ _ _ \<Rightarrow> Inr \<lparr>status_code = 404, content = Text ''not found''\<rparr>)"

definition world_at :: "datetime \<Rightarrow> (call \<Rightarrow> error + response) \<Rightarrow> world" where
  "world_at now f = \<lparr>utcnow_at = (\<lambda>_. now), send = f\<rparr>"

definition rotating_tokens :: token_json where
  "rotating_tokens =
     \<lparr>tj_access_token = Val ''new-access'', tj_refresh_token = Val ''new-refresh'',
      tj_expires_in = Val 1800\<rparr>"

definition plain_tokens :: token_json where
  "plain_tokens =
     \<lparr>tj_access_token = Val ''new-access'', tj_refresh_token = Absent,
      tj_expires_in = Absent\<rparr>"

definition no_access_token :: token_json where
  "no_access_token =
     \<lparr>tj_access_token = Absent, tj_refresh_token = Absent, tj_expires_in = Absent\<rparr>"

definition down :: "call \<Rightarrow> error + response" where
  "down c = Inr \<lparr>status_code = 400, content = OtherJson ''invalid_grant''\<rparr>"

definition alice_profile :: body where
  "alice_profile = ProfileJson \<lparr>p_id = Some ''alice'', p_display_name = Some ''Alice''\<rparr>"

text \<open>
  A service that serves the profile to whoever presents the old or the new access
  token, and answers 401 to anything else.
\<close>

definition profile_server :: "call \<Rightarrow> error + response" where
  "profile_server c =
     (case c of
        PostToken _ \<Rightarrow> Inr \<lparr>status_code = 200, content = TokenJson plain_tokens\<rparr>
      | GetApi url token params \<Rightarrow>
          if url = ''https://api.spotify.com/v1/me'' \<and>
             (token = Some ''old-access'' \<or> token = Some ''new-access'')
          then Inr \<lparr>status_code = 200, content = alice_profile\<rparr>
          else Inr \<lparr>status_code = 401, content = OtherJson ''invalid token''\<rparr>)"

text \<open>
  A service that lists one top track and refuses the feature endpoint with 403, as the
  provider does for new applications.
\<close>

definition song :: item where
  "song = \<lparr>item_id = ''t1'', item_name = ''Song'', item_artists = [''A'', ''B''],
           item_album = ''LP''\<rparr>"

definition restricted_api :: "call \<Rightarrow> error + response" where
  "restricted_api c =
     (case c of
        PostToken _ \<Rightarrow> Inr \<lparr>status_code = 200, content = TokenJson plain_tokens\<rparr>
      | GetApi url token params \<Rightarrow>
          if url = ''https://api.spotify.com/v1/me/top/tracks''
          then Inr \<lparr>status_code = 200, content = TopTracksJson (Some [song])\<rparr>
          else Inr \<lparr>status_code = 403, content = OtherJson ''forbidden''\<rparr>)"

text \<open>
  Names for what the ingestion claims speak of: the columns of a catalogue row other
  than the feature blob, the columns of a ranking row other than its key, the primary
  key of the catalogue row of an external id, the ranking rows one run appends for an
  item list, and the user key and item list a run gets as far as fetching (\<open>None\<close>
  when the run stops before the first loop).
\<close>

definition catalog :: "track \<Rightarrow> nat \<times> string \<times> string \<times> string \<times> string" where
  "catalog t = (t_id t, spotify_track_id t, name t, artist t, album t)"

definition ranking :: "user_top_track \<Rightarrow> nat \<times> nat \<times> nat" where
  "ranking e = (user_id e, track_id e, rank e)"

definition track_pk :: "track list \<Rightarrow> string \<Rightarrow> nat" where
  "track_pk ts x = (case find (\<lambda>t. spotify_track_id t = x) ts of None \<Rightarrow> 0 | Some t \<Rightarrow> t_id t)"

definition expected_entries :: "track list \<Rightarrow> nat \<Rightarrow> item list \<Rightarrow> (nat \<times> nat \<times> nat) list" where
  "expected_entries ts uid items =
     map (\<lambda>(i, it). (uid, track_pk ts (item_id it), Suc i)) (enumerate 0 items)"

definition fetched_items ::
    "world \<Rightarrow> state \<Rightarrow> string \<Rightarrow> int \<Rightarrow> (nat \<times> item list) option" where
  "fetched_items w s uid limit =
     (case find_user s uid of
        None \<Rightarrow> None
      | Some u \<Rightarrow>
          (case ensure_valid_access_token w s Attached u of
             (Inl e, s1) \<Rightarrow> None
           | (Inr token, s1) \<Rightarrow>
               (case api_reply (send w (top_tracks_call token limit)) of
                  Inl e \<Rightarrow> None
                | Inr b \<Rightarrow>
                    (case get_items b of
                       Inl e \<Rightarrow> None
                     | Inr items \<Rightarrow> Some (u_id u, items)))))"

text \<open>
  A service that lists two top tracks and serves features for the first, with a
  \<^verbatim>\<open>null\<close> entry for the second.
\<close>

definition tune :: item where
  "tune = \<lparr>item_id = ''t2'', item_name = ''Tune'', item_artists = [''C''], item_album = ''EP''\<rparr>"

definition song_features :: audio_feature where
  "song_features = \<lparr>af_id = Some ''t1'', af_values = [(''tempo'', 120)]\<rparr>"

definition open_api :: "call \<Rightarrow> error + response" where
  "open_api c =
     (case c of
        PostToken _ \<Rightarrow> Inr \<lparr>status_code = 200, content = TokenJson plain_tokens\<rparr>
      | GetApi url token params \<Rightarrow>
          if url = ''https://api.spotify.com/v1/me/top/tracks''
          then Inr \<lparr>status_code = 200, content = TopTracksJson (Some [song, tune])\<rparr>
          else Inr \<lparr>status_code = 200,
                    content = AudioFeaturesJson (Val [Some song_features, None])\<rparr>)"

text \<open>The sample state after one and after two runs of the pipeline against it.\<close>

definition after_first_run :: state where
  "after_first_run =
     sample_state
       \<lparr>tracks := [\<lparr>t_id = 1, spotify_track_id = ''t1'', name = ''Song'', artist = ''A, B'',
                    album = ''LP'', audio_features = Some song_features\<rparr>,
                   \<lparr>t_id = 2, spotify_track_id = ''t2'', name = ''Tune'', artist = ''C'',
                    album = ''EP'', audio_features = None\<rparr>],
        user_top_tracks := [\<lparr>utt_id = 1, user_id = 1, track_id = 1, rank = 1\<rparr>,
                            \<lparr>utt_id = 2, user_id = 1, track_id = 2, rank = 2\<rparr>],
        calls := [top_tracks_call (Some ''old-access'') 50,
                  features_call (Some ''old-access'') [''t1'', ''t2'']],
        clock_reads := 1\<rparr>"

definition after_second_run :: state where
  "after_second_run =
     after_first_run
       \<lparr>user_top_tracks := [\<lparr>utt_id = 1, user_id = 1, track_id = 1, rank = 1\<rparr>,
                            \<lparr>utt_id = 2, user_id = 1, track_id = 2, rank = 2\<rparr>,
                            \<lparr>utt_id = 3, user_id = 1, track_id = 1, rank = 1\<rparr>,
                            \<lparr>utt_id = 4, user_id = 1, track_id = 2, rank = 2\<rparr>],
        calls := [top_tracks_call (Some ''old-access'') 50,
                  features_call (Some ''old-access'') [''t1'', ''t2''],
                  top_tracks_call (Some ''old-access'') 50,
                  features_call (Some ''old-access'') [''t1'', ''t2'']],
        clock_reads := 2\<rparr>"

section \<open>Identifier normalisation\<close>






















section \<open>The callback without a code\<close>

text \<open>
  C8. A callback without \<^verbatim>\<open>code\<close> raises \<^verbatim>\<open>HTTPException(status_code=400)\<close> before
  anything else happens: no request is sent, the clock is not read, and no table
  changes, whatever the \<^verbatim>\<open>state\<close> parameter is.
\<close>

theorem auth_callback_missing_code:
  "auth_callback w s None st = (Inl (HTTPException 400 ''Missing code in callback''), s)"
  by (simp add: auth_callback_def)


section \<open>The token lifecycle\<close>

lemma post_token_eq:
  "post_token w s g = (token_reply (send w (PostToken g)), s\<lparr>calls := calls s @ [PostToken g]\<rparr>)"
  by (simp add: post_token_def request_def)

lemma refresh_and_store_eq:
  "refresh_and_store w s att u =
     (case refresh_reply w u of
        Inl e \<Rightarrow> (Inl e, s\<lparr>calls := calls s @ [refresh_call u]\<rparr>)
      | Inr tj \<Rightarrow>
          (case refreshed u tj (utcnow_at w (clock_reads s)) of
             Inl e \<Rightarrow>
               (Inl e, s\<lparr>calls := calls s @ [refresh_call u], clock_reads := Suc (clock_reads s)\<rparr>)
           | Inr u' \<Rightarrow>
               (case att of
                  Attached \<Rightarrow>
                    (Inl InvalidRequestError,
                     s\<lparr>calls := calls s @ [refresh_call u], clock_reads := Suc (clock_reads s)\<rparr>)
                | Detached \<Rightarrow>
                    if not_null_ok u'
                    then (Inr (access_token u'),
                          s\<lparr>calls := calls s @ [refresh_call u],
                            clock_reads := Suc (clock_reads s),
                            users := map (\<lambda>r. if u_id r = u_id u then u' else r) (users s)\<rparr>)
                    else (Inl IntegrityError,
                          s\<lparr>calls := calls s @ [refresh_call u],
                            clock_reads := Suc (clock_reads s)\<rparr>))))"
proof -
  have u: "\<And>u'. refreshed u tj t = Inr u' \<Longrightarrow> u_id u' = u_id u" for tj t
    by (auto simp: refreshed_def Let_def split: sum.splits if_splits)
  show ?thesis
    by (auto simp: refresh_and_store_def refresh_access_token_def post_token_eq refresh_reply_def
        refresh_call_def utcnow_def commit_user_def session_add_def u
        split: sum.splits attachment.splits)
qed

lemma ensure_valid_eq:
  "ensure_valid_access_token w s att u =
     (case token_expires u of
        None \<Rightarrow> refresh_and_store w s att u
      | Some e \<Rightarrow>
          (case plus_seconds (check_time w s) 60 of
             Inl err \<Rightarrow> (Inl err, s\<lparr>clock_reads := Suc (clock_reads s)\<rparr>)
           | Inr limit \<Rightarrow>
               if e \<le> limit
               then refresh_and_store w (s\<lparr>clock_reads := Suc (clock_reads s)\<rparr>) att u
               else (Inr (access_token u), s\<lparr>clock_reads := Suc (clock_reads s)\<rparr>)))"
  by (simp add: ensure_valid_access_token_def utcnow_def check_time_def
      split: option.splits sum.splits)

lemma ensure_valid_refresh:
  "needs_refresh w s u \<Longrightarrow>
   ensure_valid_access_token w s att u =
     refresh_and_store w
       (s\<lparr>clock_reads := (case token_expires u of None \<Rightarrow> clock_reads s
                          | Some _ \<Rightarrow> Suc (clock_reads s))\<rparr>) att u"
  by (auto simp: ensure_valid_eq needs_refresh_def split: option.splits sum.splits)

lemma ensure_valid_no_refresh:
  "\<not> needs_refresh w s u \<Longrightarrow>
   ensure_valid_access_token w s att u =
     ((case plus_seconds (check_time w s) 60 of
         Inl err \<Rightarrow> Inl err
       | Inr _ \<Rightarrow> Inr (access_token u)),
      s\<lparr>clock_reads := Suc (clock_reads s)\<rparr>)"
  by (auto simp: ensure_valid_eq needs_refresh_def split: option.splits sum.splits)

lemma refreshed_fields:
  assumes "refreshed u tj now = Inr u'"
  shows "access_token u' = dict_get (tj_access_token tj)"
    and "\<exists>n. int_expires_in tj = Inr n \<and> plus_seconds now n = Inr (now + n * 1000000) \<and>
             token_expires u' = Some (now + n * 1000000)"
    and "refresh_token u' =
           (if tj_refresh_token tj = Absent then refresh_token u
            else dict_get (tj_refresh_token tj))"
    and "u_id u' = u_id u"
    and "spotify_user_id u' = spotify_user_id u"
    and "display_name u' = display_name u"
  using assms
  by (auto simp: refreshed_def Let_def plus_seconds_def timedelta_def datetime_add_def
      split: sum.splits if_splits)

lemma find_map_update:
  "find (\<lambda>x. u_id x = i) xs = Some u \<Longrightarrow> u_id u' = i \<Longrightarrow>
   find (\<lambda>x. u_id x = i) (map (\<lambda>r. if u_id r = i then u' else r) xs) = Some u'"
  by (induction xs) (auto split: if_splits)

lemma ensure_valid_tables:
  "ensure_valid_access_token w s att u = (r, s') \<Longrightarrow>
   tracks s' = tracks s \<and> user_top_tracks s' = user_top_tracks s"
  by (cases "needs_refresh w s u")
     (auto simp: ensure_valid_refresh ensure_valid_no_refresh refresh_and_store_eq
       split: sum.splits if_splits attachment.splits)

lemma ensure_valid_calls:
  "ensure_valid_access_token w s att u = (r, s') \<Longrightarrow>
   calls s' = calls s @ (if needs_refresh w s u then [refresh_call u] else [])"
  by (cases "needs_refresh w s u")
     (auto simp: ensure_valid_refresh ensure_valid_no_refresh refresh_and_store_eq
       split: sum.splits if_splits attachment.splits)

lemma ensure_valid_users:
  assumes "ensure_valid_access_token w s att u = (r, s')"
  shows "users s' = users s \<or>
         (att = Detached \<and> needs_refresh w s u \<and>
          (\<exists>tj u'. refresh_reply w u = Inr tj \<and> refreshed u tj (store_time w s u) = Inr u' \<and>
                   not_null_ok u' \<and> r = Inr (access_token u') \<and>
                   users s' = map (\<lambda>x. if u_id x = u_id u then u' else x) (users s)))"
proof (cases "needs_refresh w s u")
  case False
  then show ?thesis using assms by (auto simp: ensure_valid_no_refresh)
next
  case True
  show ?thesis
  proof (cases "refresh_reply w u")
    case (Inl e)
    then show ?thesis using assms True
      by (auto simp: ensure_valid_refresh refresh_and_store_eq)
  next
    case (Inr tj)
    show ?thesis
    proof (cases "refreshed u tj (store_time w s u)")
      case (Inl e)
      then show ?thesis using assms True Inr
        by (auto simp: ensure_valid_refresh refresh_and_store_eq store_time_def)
    next
      case u': (Inr u')
      show ?thesis
      proof (cases att)
        case Attached
        then show ?thesis using assms True Inr u'
          by (auto simp: ensure_valid_refresh refresh_and_store_eq store_time_def)
      next
        case Detached
        show ?thesis
        proof (cases "not_null_ok u'")
          case False
          then show ?thesis using assms True Inr u' Detached
            by (auto simp: ensure_valid_refresh refresh_and_store_eq store_time_def)
        next
          case ok: True
          have "r = Inr (access_token u') \<and>
                users s' = map (\<lambda>x. if u_id x = u_id u then u' else x) (users s)"
            using assms True Inr u' Detached ok
            by (auto simp: ensure_valid_refresh refresh_and_store_eq store_time_def)
          then show ?thesis using True Inr u' Detached ok by blast
        qed
      qed
    qed
  qed
qed

lemma ensure_valid_failed_exchange:
  "ensure_valid_access_token w s att u = (r, s') \<Longrightarrow> needs_refresh w s u \<Longrightarrow>
   refresh_reply w u = Inl e \<Longrightarrow> r = Inl e \<and> users s' = users s"
  by (auto simp: ensure_valid_refresh refresh_and_store_eq)

text \<open>
  What both callers in \<^verbatim>\<open>app.py\<close> get: the object they pass is attached to their own
  session, so \<^verbatim>\<open>db.add\<close> on the new session raises. The table is never changed, and a
  call that needs a refresh never returns a token.
\<close>

lemma attached_refresh_raises:
  assumes "ensure_valid_access_token w s Attached u = (r, s')"
  shows "users s' = users s" and "needs_refresh w s u \<Longrightarrow> \<exists>e. r = Inl e"
  using assms ensure_valid_users [OF assms]
  by (auto simp: ensure_valid_refresh refresh_and_store_eq split: sum.splits)


text \<open>
  What the function is written to do, and does for an object that belongs to no
  session: return the new access token with the refreshed row stored.
\<close>

lemma detached_refresh_stores:
  assumes "needs_refresh w s u"
    and "refresh_reply w u = Inr tj"
    and "refreshed u tj (store_time w s u) = Inr u'"
    and "not_null_ok u'"
    and "ensure_valid_access_token w s Detached u = (r, s')"
  shows "r = Inr (access_token u') \<and>
         users s' = map (\<lambda>x. if u_id x = u_id u then u' else x) (users s)"
  using assms
  by (auto simp: ensure_valid_refresh refresh_and_store_eq store_time_def)

text \<open>
  C2. After any call of \<^verbatim>\<open>ensure_valid_access_token\<close> on a stored account, returned or
  failed, the table either holds the account's row exactly as before, or holds the
  refreshed row, whose access token and expiry both come from the one answer of the
  exchange. When the refresh exchange fails, the error is passed on and the table is
  unchanged: access token, refresh token and expiry are the ones stored before. For
  an object still attached to the caller's session the table is always unchanged.
\<close>

theorem stored_token_pair_consistent:
  assumes "stored_user s (u_id u) = Some u"
    and "ensure_valid_access_token w s att u = (r, s')"
  shows "((users s' = users s \<and> stored_user s' (u_id u) = Some u) \<or>
          (\<exists>tj u'. needs_refresh w s u \<and> refresh_reply w u = Inr tj \<and>
                refreshed u tj (store_time w s u) = Inr u' \<and>
                r = Inr (dict_get (tj_access_token tj)) \<and>
                stored_user s' (u_id u) = Some u' \<and>
                access_token u' = dict_get (tj_access_token tj) \<and>
                (\<exists>n. int_expires_in tj = Inr n \<and>
                     token_expires u' = Some (store_time w s u + n * 1000000)))) \<and>
         (\<forall>e. needs_refresh w s u \<and> refresh_reply w u = Inl e \<longrightarrow>
              r = Inl e \<and> users s' = users s \<and> stored_user s' (u_id u) = Some u) \<and>
         (att = Attached \<longrightarrow> users s' = users s \<and> stored_user s' (u_id u) = Some u)"
proof (intro conjI allI impI)
  show "(users s' = users s \<and> stored_user s' (u_id u) = Some u) \<or>
          (\<exists>tj u'. needs_refresh w s u \<and> refresh_reply w u = Inr tj \<and>
                refreshed u tj (store_time w s u) = Inr u' \<and>
                r = Inr (dict_get (tj_access_token tj)) \<and>
                stored_user s' (u_id u) = Some u' \<and>
                access_token u' = dict_get (tj_access_token tj) \<and>
                (\<exists>n. int_expires_in tj = Inr n \<and>
                     token_expires u' = Some (store_time w s u + n * 1000000)))"
  proof (cases "users s' = users s")
    case True
    then show ?thesis using assms(1) by (simp add: stored_user_def)
  next
    case False
    then obtain tj u' where n: "needs_refresh w s u" and t: "refresh_reply w u = Inr tj"
      and u': "refreshed u tj (store_time w s u) = Inr u'"
      and r: "r = Inr (access_token u')"
      and us: "users s' = map (\<lambda>x. if u_id x = u_id u then u' else x) (users s)"
      using ensure_valid_users [OF assms(2)] by blast
    have st: "stored_user s' (u_id u) = Some u'"
      using assms(1) us find_map_update [of "u_id u" "users s" u u'] refreshed_fields(4) [OF u']
      by (simp add: stored_user_def)
    show ?thesis
      using n t u' r st refreshed_fields(1,2) [OF u'] by auto
  qed
next
  fix e
  assume h: "needs_refresh w s u \<and> refresh_reply w u = Inl e"
  then have "r = Inl e \<and> users s' = users s"
    using ensure_valid_failed_exchange [OF assms(2)] by blast
  then show "r = Inl e" and "users s' = users s" and "stored_user s' (u_id u) = Some u"
    using assms(1) by (simp_all add: stored_user_def)
next
  assume "att = Attached"
  then have "users s' = users s"
    using attached_refresh_raises(1) assms(2) by blast
  then show "users s' = users s" and "stored_user s' (u_id u) = Some u"
    using assms(1) by (simp_all add: stored_user_def)
qed

text \<open>
  C10, as amended. When the answer of the refresh exchange has no access token, the
  call sends its one exchange and then raises: it returns nothing, not \<^verbatim>\<open>None\<close>
  either, and the table is unchanged. This holds whichever session the object
  belongs to; \<^verbatim>\<open>access_token\<close> is declared \<^verbatim>\<open>nullable=False\<close>, so no commit can store
  \<^verbatim>\<open>None\<close> there.
\<close>

theorem refresh_without_access_token_fails:
  assumes "needs_refresh w s u"
    and "refresh_reply w u = Inr tj"
    and "dict_get (tj_access_token tj) = None"
    and "ensure_valid_access_token w s att u = (r, s')"
  shows "(\<exists>e. r = Inl e) \<and> users s' = users s \<and> calls s' = calls s @ [refresh_call u]"
proof -
  have c: "calls s' = calls s @ [refresh_call u]"
    using ensure_valid_calls [OF assms(4)] assms(1) by simp
  have "\<And>u'. refreshed u tj (store_time w s u) = Inr u' \<Longrightarrow> \<not> not_null_ok u'"
    using refreshed_fields(1) assms(3) by (fastforce simp: not_null_ok_def)
  then have "(\<exists>e. r = Inl e) \<and> users s' = users s"
    using assms(1,2,4)
    by (auto simp: ensure_valid_refresh refresh_and_store_eq store_time_def
        split: sum.splits attachment.splits if_splits)
  then show ?thesis using c by blast
qed

lemmas token_eval =
  ensure_valid_access_token_def refresh_and_store_def refresh_access_token_def post_token_def
  request_def token_reply_def json_token_def ok_def utcnow_def plus_seconds_def timedelta_def
  datetime_add_def datetime_min_def datetime_max_def int_expires_in_def dict_get_def
  session_add_def commit_user_def not_null_ok_def refreshed_def world_at_def token_server_def
  sample_state_def sample_user_def rotating_tokens_def plain_tokens_def no_access_token_def
  down_def

lemmas refresh_eval =
  needs_refresh_def check_time_def plus_seconds_def timedelta_def datetime_add_def
  datetime_min_def datetime_max_def world_at_def sample_user_def sample_state_def
  refresh_reply_def refresh_call_def token_reply_def ok_def token_server_def json_token_def
  down_def

text \<open>A token endpoint that answers 400: the error reaches the caller, the row stays.\<close>

theorem stored_token_pair_witness:
  "stored_user sample_state (u_id sample_user) = Some sample_user \<and>
   ensure_valid_access_token (world_at 5001000000 down) sample_state Attached sample_user =
     (Inl (HTTPError \<lparr>status_code = 400, content = OtherJson ''invalid_grant''\<rparr>),
      sample_state\<lparr>calls := [PostToken (RefreshToken (Some ''old-refresh''))],
                   clock_reads := 1\<rparr>) \<and>
   users (sample_state\<lparr>calls := [PostToken (RefreshToken (Some ''old-refresh''))],
                      clock_reads := 1\<rparr>) = users sample_state"
proof -
  have st: "stored_user sample_state (u_id sample_user) = Some sample_user"
    by (simp add: stored_user_def sample_state_def)
  have h: "ensure_valid_access_token (world_at 5001000000 down) sample_state Attached
             sample_user =
     (Inl (HTTPError \<lparr>status_code = 400, content = OtherJson ''invalid_grant''\<rparr>),
      sample_state\<lparr>calls := [PostToken (RefreshToken (Some ''old-refresh''))],
                   clock_reads := 1\<rparr>)"
    by (simp add: token_eval)
  have n: "needs_refresh (world_at 5001000000 down) sample_state sample_user"
    by (simp add: refresh_eval)
  have f: "refresh_reply (world_at 5001000000 down) sample_user =
             Inl (HTTPError \<lparr>status_code = 400, content = OtherJson ''invalid_grant''\<rparr>)"
    by (simp add: refresh_eval)
  have "users (sample_state\<lparr>calls := [PostToken (RefreshToken (Some ''old-refresh''))],
                      clock_reads := 1\<rparr>) = users sample_state"
    using stored_token_pair_consistent [OF st h] n f by blast
  then show ?thesis using st h by blast
qed

text \<open>The amended statement at the sample account, attached and detached.\<close>

theorem refresh_without_access_token_witness:
  "needs_refresh (world_at 5001000000 (token_server no_access_token)) sample_state sample_user \<and>
   refresh_reply (world_at 5001000000 (token_server no_access_token)) sample_user =
     Inr no_access_token \<and>
   dict_get (tj_access_token no_access_token) = None \<and>
   users (snd (ensure_valid_access_token (world_at 5001000000 (token_server no_access_token))
                 sample_state Detached sample_user)) = users sample_state \<and>
   users (snd (ensure_valid_access_token (world_at 5001000000 (token_server no_access_token))
                 sample_state Attached sample_user)) = users sample_state"
proof -
  have n: "needs_refresh (world_at 5001000000 (token_server no_access_token))
             sample_state sample_user"
    by (simp add: refresh_eval)
  have f: "refresh_reply (world_at 5001000000 (token_server no_access_token)) sample_user =
             Inr no_access_token"
    by (simp add: refresh_eval)
  have a: "dict_get (tj_access_token no_access_token) = None"
    by (simp add: no_access_token_def dict_get_def)
  show ?thesis
    using refresh_without_access_token_fails [OF n f a surjective_pairing, of Detached]
      refresh_without_access_token_fails [OF n f a surjective_pairing, of Attached] n f a
    by blast
qed

text \<open>
  C10 as stated fails at the sample account, called as \<^verbatim>\<open>app.py\<close> calls it: the call
  does not return \<^verbatim>\<open>None\<close>, it raises, and the stored row keeps its old access token
  and expiry.
\<close>

theorem refresh_without_access_token_raises:
  "ensure_valid_access_token (world_at 5001000000 (token_server no_access_token))
     sample_state Attached sample_user =
     (Inl InvalidRequestError,
      sample_state\<lparr>calls := [PostToken (RefreshToken (Some ''old-refresh''))],
                   clock_reads := 2\<rparr>) \<and>
   fst (ensure_valid_access_token (world_at 5001000000 (token_server no_access_token))
          sample_state Attached sample_user) \<noteq> Inr None \<and>
   stored_user (snd (ensure_valid_access_token
                       (world_at 5001000000 (token_server no_access_token))
                       sample_state Attached sample_user)) 1 = Some sample_user"
  by (simp add: token_eval stored_user_def)

text \<open>
  C3, at a failing input. The stored sample account, loaded by the caller's session,
  has a token that expired a second ago, and the token endpoint answers the exchange.
  The claim says the call persists the result and returns; the call sends its one
  exchange, then raises \<^verbatim>\<open>InvalidRequestError\<close> from \<^verbatim>\<open>db.add\<close>, returns nothing and
  leaves the table as it was.
\<close>

theorem expired_token_refresh_is_lost:
  "ensure_valid_access_token (world_at 5001000000 (token_server plain_tokens))
     sample_state Attached sample_user =
     (Inl InvalidRequestError,
      sample_state\<lparr>calls := [PostToken (RefreshToken (Some ''old-refresh''))],
                   clock_reads := 2\<rparr>)"
  by (simp add: token_eval)

text \<open>
  C4, at a failing input. The exchange answers with a new access token, a new refresh
  token and a lifetime of 1800 seconds. The object gets all three, as the last
  conjunct shows, but the claim says they are persisted: the call raises, and the
  stored row keeps the old access token, refresh token and expiry.
\<close>

theorem rotated_tokens_are_lost:
  "fst (ensure_valid_access_token (world_at 5001000000 (token_server rotating_tokens))
          sample_state Attached sample_user) = Inl InvalidRequestError \<and>
   calls (snd (ensure_valid_access_token (world_at 5001000000 (token_server rotating_tokens))
                 sample_state Attached sample_user)) =
     [PostToken (RefreshToken (Some ''old-refresh''))] \<and>
   stored_user (snd (ensure_valid_access_token
                       (world_at 5001000000 (token_server rotating_tokens))
                       sample_state Attached sample_user)) 1 = Some sample_user \<and>
   refreshed sample_user rotating_tokens 5001000000 =
     Inr (sample_user\<lparr>access_token := Some ''new-access'',
                      refresh_token := Some ''new-refresh'',
                      token_expires := Some 6801000000\<rparr>)"
  by (simp add: token_eval stored_user_def)

section \<open>The API clients' failures\<close>

lemma api_get_eq:
  "api_get w s path token params =
     (api_reply (send w (GetApi (api_url path) token params)),
      s\<lparr>calls := calls s @ [GetApi (api_url path) token params]\<rparr>)"
  by (simp add: api_get_def request_def)

lemma unauthorized_not_ok: "status_code resp = 401 \<Longrightarrow> \<not> ok resp"
  by (simp add: ok_def)

text \<open>
  C7, as amended. In \<^verbatim>\<open>backend/spotify_client.py\<close>, the client the application imports,
  every response that is not \<^verbatim>\<open>ok\<close> (status 400 to 599) is raised by \<^verbatim>\<open>api_get\<close> as an
  \<^verbatim>\<open>HTTPError\<close> holding that response, so the caller reads the status code and the body
  from it and tells a 401 by its status code. In \<^verbatim>\<open>spotify_client.py\<close> at the top of
  the repository, \<^verbatim>\<open>api_get\<close> does the same for every such status but 401; a 401 it
  raises as a plain exception, which no other failure is, and which holds neither the
  status code nor the body. A 401 is never \<^verbatim>\<open>ok\<close>.
\<close>

theorem api_get_failures:
  "(\<forall>resp. send w (GetApi (api_url path) token params) = Inr resp \<and> \<not> ok resp \<longrightarrow>
      fst (api_get w s path token params) = Inl (HTTPError resp) \<and>
      failure_status (HTTPError resp) = Some (status_code resp) \<and>
      failure_body (HTTPError resp) = Some (content resp) \<and>
      is_unauthorized (HTTPError resp) = (status_code resp = 401)) \<and>
   (\<forall>resp. send w (GetApi (SPOTIFY_API_BASE @ path) token params) = Inr resp \<and>
      \<not> ok resp \<and> status_code resp \<noteq> 401 \<longrightarrow>
      fst (api_get_toplevel w s path token params) = Inl (HTTPError resp) \<and>
      failure_status (HTTPError resp) = Some (status_code resp) \<and>
      failure_body (HTTPError resp) = Some (content resp)) \<and>
   (\<forall>resp. send w (GetApi (SPOTIFY_API_BASE @ path) token params) = Inr resp \<and>
      status_code resp = 401 \<longrightarrow>
      fst (api_get_toplevel w s path token params) =
        Inl (Exception ''Unauthorized - token may be expired'') \<and>
      failure_status (Exception ''Unauthorized - token may be expired'') = None \<and>
      failure_body (Exception ''Unauthorized - token may be expired'') = None \<and>
      (\<forall>other. Exception ''Unauthorized - token may be expired'' \<noteq> HTTPError other)) \<and>
   (\<forall>resp. status_code resp = 401 \<longrightarrow> \<not> ok resp)"
  by (simp add: api_get_eq api_reply_def is_unauthorized_def api_get_toplevel_def request_def
      ok_def)

text \<open>A 401 for a stale token and a 403 from the feature endpoint, through both clients.\<close>

theorem api_get_failures_witness:
  "send (world_at 0 profile_server) (GetApi (api_url ''me'') (Some ''stale'') []) =
     Inr \<lparr>status_code = 401, content = OtherJson ''invalid token''\<rparr> \<and>
   fst (api_get (world_at 0 profile_server) sample_state ''me'' (Some ''stale'') []) =
     Inl (HTTPError \<lparr>status_code = 401, content = OtherJson ''invalid token''\<rparr>) \<and>
   is_unauthorized (HTTPError \<lparr>status_code = 401, content = OtherJson ''invalid token''\<rparr>) \<and>
   send (world_at 0 restricted_api) (GetApi (api_url ''/audio-features'') (Some ''old-access'') []) =
     Inr \<lparr>status_code = 403, content = OtherJson ''forbidden''\<rparr> \<and>
   fst (api_get (world_at 0 restricted_api) sample_state ''/audio-features''
          (Some ''old-access'') []) =
     Inl (HTTPError \<lparr>status_code = 403, content = OtherJson ''forbidden''\<rparr>) \<and>
   \<not> is_unauthorized (HTTPError \<lparr>status_code = 403, content = OtherJson ''forbidden''\<rparr>) \<and>
   send (world_at 0 restricted_api)
     (GetApi (SPOTIFY_API_BASE @ ''/audio-features'') (Some ''old-access'') []) =
     Inr \<lparr>status_code = 403, content = OtherJson ''forbidden''\<rparr> \<and>
   fst (api_get_toplevel (world_at 0 restricted_api) sample_state ''/audio-features''
          (Some ''old-access'') []) =
     Inl (HTTPError \<lparr>status_code = 403, content = OtherJson ''forbidden''\<rparr>) \<and>
   send (world_at 0 profile_server) (GetApi (SPOTIFY_API_BASE @ ''/me'') (Some ''stale'') []) =
     Inr \<lparr>status_code = 401, content = OtherJson ''invalid token''\<rparr> \<and>
   fst (api_get_toplevel (world_at 0 profile_server) sample_state ''/me'' (Some ''stale'') []) =
     Inl (Exception ''Unauthorized - token may be expired'')"
proof -
  have s1: "send (world_at 0 profile_server) (GetApi (api_url ''me'') (Some ''stale'') []) =
     Inr \<lparr>status_code = 401, content = OtherJson ''invalid token''\<rparr>"
    and s2: "send (world_at 0 restricted_api)
       (GetApi (api_url ''/audio-features'') (Some ''old-access'') []) =
     Inr \<lparr>status_code = 403, content = OtherJson ''forbidden''\<rparr>"
    and s3: "send (world_at 0 restricted_api)
       (GetApi (SPOTIFY_API_BASE @ ''/audio-features'') (Some ''old-access'') []) =
     Inr \<lparr>status_code = 403, content = OtherJson ''forbidden''\<rparr>"
    and s4: "send (world_at 0 profile_server)
       (GetApi (SPOTIFY_API_BASE @ ''/me'') (Some ''stale'') []) =
     Inr \<lparr>status_code = 401, content = OtherJson ''invalid token''\<rparr>"
    by (simp_all add: world_at_def profile_server_def restricted_api_def api_url_def
        SPOTIFY_API_BASE_def)
  have n1: "\<not> ok \<lparr>status_code = 401, content = OtherJson ''invalid token''\<rparr>"
    and n2: "\<not> ok \<lparr>status_code = 403, content = OtherJson ''forbidden''\<rparr>"
    by (simp_all add: ok_def)
  note t1 = api_get_failures [of "world_at 0 profile_server" "''me''" "Some ''stale''" "[]"
      sample_state]
  note t2 = api_get_failures [of "world_at 0 restricted_api" "''/audio-features''"
      "Some ''old-access''" "[]" sample_state]
  note t4 = api_get_failures [of "world_at 0 profile_server" "''/me''" "Some ''stale''" "[]"
      sample_state]
  have c1: "fst (api_get (world_at 0 profile_server) sample_state ''me'' (Some ''stale'') []) =
      Inl (HTTPError \<lparr>status_code = 401, content = OtherJson ''invalid token''\<rparr>) \<and>
      is_unauthorized (HTTPError \<lparr>status_code = 401, content = OtherJson ''invalid token''\<rparr>)"
    using t1 s1 n1 by simp
  have c2: "fst (api_get (world_at 0 restricted_api) sample_state ''/audio-features''
          (Some ''old-access'') []) =
      Inl (HTTPError \<lparr>status_code = 403, content = OtherJson ''forbidden''\<rparr>) \<and>
      \<not> is_unauthorized (HTTPError \<lparr>status_code = 403, content = OtherJson ''forbidden''\<rparr>)"
    using t2 s2 n2 by simp
  have c3: "fst (api_get_toplevel (world_at 0 restricted_api) sample_state ''/audio-features''
          (Some ''old-access'') []) =
      Inl (HTTPError \<lparr>status_code = 403, content = OtherJson ''forbidden''\<rparr>)"
    using t2 s3 n2 by simp
  have c4: "fst (api_get_toplevel (world_at 0 profile_server) sample_state ''/me''
          (Some ''stale'') []) = Inl (Exception ''Unauthorized - token may be expired'')"
    using t4 s4 by simp
  show ?thesis
    using s1 c1 s2 c2 s3 c3 s4 c4 by blast
qed

text \<open>
  C7 as stated fails for the second client it cites: on a 401 its failure holds
  neither the status code nor the body, where the first client's does.
\<close>

theorem api_get_toplevel_unauthorized:
  "fst (api_get_toplevel (world_at 0 profile_server) sample_state ''/me'' (Some ''stale'') []) =
     Inl (Exception ''Unauthorized - token may be expired'') \<and>
   failure_status (Exception ''Unauthorized - token may be expired'') = None \<and>
   failure_body (Exception ''Unauthorized - token may be expired'') = None \<and>
   fst (api_get (world_at 0 profile_server) sample_state ''/me'' (Some ''stale'') []) =
     Inl (HTTPError \<lparr>status_code = 401, content = OtherJson ''invalid token''\<rparr>)"
  by (simp add: api_get_toplevel_def api_get_def api_url_def api_reply_def request_def ok_def
      world_at_def profile_server_def SPOTIFY_API_BASE_def)

section \<open>The ingestion pipeline\<close>

lemma get_user_top_tracks_eq:
  "get_user_top_tracks w s token limit =
     (api_reply (send w (top_tracks_call token limit)),
      s\<lparr>calls := calls s @ [top_tracks_call token limit]\<rparr>)"
  by (simp add: get_user_top_tracks_def api_get_eq top_tracks_call_def)

lemma get_audio_features_eq:
  "get_audio_features w s token ids =
     ((case api_reply (send w (features_call token ids)) of
         Inl e \<Rightarrow> AudioFeaturesJson Null
       | Inr b \<Rightarrow> b),
      s\<lparr>calls := calls s @ [features_call token ids]\<rparr>)"
  by (simp add: get_audio_features_def api_get_eq features_call_def split: sum.splits)

lemma fetch_audio_features_unavailable:
  "items \<noteq> [] \<Longrightarrow>
   api_reply (send w (features_call token (map item_id items))) = Inl e \<Longrightarrow>
   fetch_audio_features w s token items =
     (Inl TypeError, s\<lparr>calls := calls s @ [features_call token (map item_id items)]\<rparr>)"
  by (simp add: fetch_audio_features_def get_audio_features_eq get_audio_features_list_def)

lemma fetch_audio_features_no_items:
  "fetch_audio_features w s token [] = (Inr (), s)"
  by (simp add: fetch_audio_features_def)

text \<open>
  When the feature request fails for a list that has items, \<^verbatim>\<open>get_audio_features\<close>
  answers \<^verbatim>\<open>{"audio_features": None}\<close>, the key is there, \<^verbatim>\<open>.get\<close> gives \<^verbatim>\<open>None\<close> and not
  its default, and the \<^verbatim>\<open>for\<close> loop of \<^verbatim>\<open>api_top_tracks\<close> raises.
\<close>

lemma api_top_tracks_features_unavailable:
  assumes "find_user s uid = Some u"
    and "ensure_valid_access_token w s Attached u = (Inr token, s1)"
    and "api_reply (send w (top_tracks_call token limit)) = Inr b"
    and "get_items b = Inr items"
    and "items \<noteq> []"
    and "api_reply (send w (features_call token (map item_id items))) = Inl e"
  shows "fst (api_top_tracks w s uid limit) = Inl TypeError"
  using assms
  by (simp add: api_top_tracks_def get_user_top_tracks_eq fetch_audio_features_unavailable)

lemmas pipeline_eval =
  api_top_tracks_def find_user_def get_user_top_tracks_def api_get_def api_url_def
  SPOTIFY_API_BASE_def request_def api_reply_def ok_def get_items_def
  fetch_audio_features_def get_audio_features_def get_audio_features_list_def
  store_item_def find_track_def new_track_def next_id_def falsy_def
  world_at_def restricted_api_def song_def sample_state_def sample_user_def

text \<open>
  C1, at a failing input. The stored sample account has a valid token, the provider
  lists one track and answers the feature request with 403. The docstring of
  \<^verbatim>\<open>get_audio_features\<close> promises that this no longer crashes the API, and the claim that
  the run returns the count; the run stores the track and its ranking row, writes no
  features, and then raises a \<^verbatim>\<open>TypeError\<close> to the caller instead of returning.
\<close>

theorem api_top_tracks_feature_failure_raises:
  "api_top_tracks (world_at 1400000000 restricted_api) sample_state ''alice'' 50 =
     (Inl TypeError,
      sample_state
        \<lparr>tracks := [\<lparr>t_id = 1, spotify_track_id = ''t1'', name = ''Song'', artist = ''A, B'',
                     album = ''LP'', audio_features = None\<rparr>],
         user_top_tracks := [\<lparr>utt_id = 1, user_id = 1, track_id = 1, rank = 1\<rparr>],
         calls := [GetApi ''https://api.spotify.com/v1/me/top/tracks'' (Some ''old-access'')
                     [(''limit'', PInt 50), (''time_range'', PStr ''medium_term'')],
                   GetApi ''https://api.spotify.com/v1/audio-features'' (Some ''old-access'')
                     [(''ids'', PStr ''t1'')]],
         clock_reads := 1\<rparr>)"
  by (simp add: pipeline_eval ensure_valid_access_token_def utcnow_def plus_seconds_def
      timedelta_def datetime_add_def datetime_min_def datetime_max_def)

subsection \<open>Catalogue rows and ranking rows\<close>

lemma find_track_None_iff:
  "(find (\<lambda>t. spotify_track_id t = x) ts = None) = (x \<notin> set (map spotify_track_id ts))"
  by (auto simp: find_None_iff)

lemma find_append_Some:
  "find P xs = Some y \<Longrightarrow> find P (xs @ ys) = Some y"
  by (induction xs) (auto split: if_splits)

lemma find_append_None:
  "find P xs = None \<Longrightarrow> find P (xs @ ys) = find P ys"
  by (induction xs) (auto split: if_splits)

lemma track_pk_append:
  "x \<in> set (map spotify_track_id ts) \<Longrightarrow> track_pk (ts @ new) x = track_pk ts x"
proof -
  assume "x \<in> set (map spotify_track_id ts)"
  then obtain t where "find (\<lambda>t. spotify_track_id t = x) ts = Some t"
    using find_track_None_iff [of x ts] by (cases "find (\<lambda>t. spotify_track_id t = x) ts") auto
  then show ?thesis by (simp add: track_pk_def find_append_Some)
qed

lemma track_pk_catalog:
  "map catalog ts = map catalog ts' \<Longrightarrow> track_pk ts x = track_pk ts' x"
proof (induction ts arbitrary: ts')
  case Nil
  then show ?case by simp
next
  case (Cons t ts)
  then obtain t' rest where ts': "ts' = t' # rest" by (cases ts') auto
  with Cons.prems have c: "catalog t = catalog t'" and r: "map catalog ts = map catalog rest"
    by auto
  have "track_pk ts x = track_pk rest x" using Cons.IH [OF r] .
  then show ?case using c ts'
    by (auto simp: track_pk_def catalog_def)
qed

lemma ids_catalog:
  "map catalog ts = map catalog ts' \<Longrightarrow> map spotify_track_id ts = map spotify_track_id ts'"
proof -
  assume "map catalog ts = map catalog ts'"
  then have "map (fst \<circ> snd) (map catalog ts) = map (fst \<circ> snd) (map catalog ts')" by simp
  then show ?thesis by (simp add: catalog_def comp_def)
qed

subsection \<open>One item\<close>

lemma store_item_tracks:
  "tracks (store_item s uid idx it) =
     (if item_id it \<in> set (map spotify_track_id (tracks s)) then tracks s
      else tracks s @ [new_track s it])"
  using find_track_None_iff [of "item_id it" "tracks s"]
  by (auto simp: store_item_def find_track_def Let_def split: option.splits)

lemma store_item_other:
  "users (store_item s uid idx it) = users s"
  "calls (store_item s uid idx it) = calls s"
  "clock_reads (store_item s uid idx it) = clock_reads s"
  by (auto simp: store_item_def find_track_def Let_def split: option.splits)

lemma store_item_ids:
  "item_id it \<in> set (map spotify_track_id (tracks (store_item s uid idx it)))"
  by (simp add: store_item_tracks new_track_def)

lemma store_item_ranking:
  "\<exists>e. user_top_tracks (store_item s uid idx it) = user_top_tracks s @ [e] \<and>
       ranking e = (uid, track_pk (tracks (store_item s uid idx it)) (item_id it), Suc idx)"
proof (cases "find (\<lambda>t. spotify_track_id t = item_id it) (tracks s)")
  case None
  then have "find (\<lambda>t. spotify_track_id t = item_id it) (tracks s @ [new_track s it]) =
      Some (new_track s it)"
    by (simp add: find_append_None new_track_def)
  then show ?thesis using None
    by (simp add: store_item_def find_track_def Let_def ranking_def track_pk_def)
next
  case (Some t)
  then show ?thesis
    by (simp add: store_item_def find_track_def Let_def ranking_def track_pk_def)
qed

subsection \<open>The first loop\<close>

lemma store_items_other:
  "users (store_items s uid idx its) = users s \<and>
   calls (store_items s uid idx its) = calls s \<and>
   clock_reads (store_items s uid idx its) = clock_reads s"
  by (induction its arbitrary: s idx) (simp_all add: store_item_other)

lemma store_items_prefix:
  "\<exists>new. tracks (store_items s uid idx its) = tracks s @ new"
proof (induction its arbitrary: s idx)
  case Nil
  show ?case by simp
next
  case (Cons it its)
  obtain new where "tracks (store_items (store_item s uid idx it) uid (Suc idx) its) =
      tracks (store_item s uid idx it) @ new"
    using Cons.IH by blast
  then show ?case by (auto simp: store_item_tracks)
qed

lemma store_items_present:
  "item_id ` set its \<subseteq> set (map spotify_track_id (tracks s)) \<Longrightarrow>
   tracks (store_items s uid idx its) = tracks s"
  by (induction its arbitrary: s idx) (auto simp: store_item_tracks)

lemma store_items_distinct:
  "distinct (map spotify_track_id (tracks s)) \<Longrightarrow>
   distinct (map spotify_track_id (tracks (store_items s uid idx its)))"
proof (induction its arbitrary: s idx)
  case Nil
  then show ?case by simp
next
  case (Cons it its)
  have "distinct (map spotify_track_id (tracks (store_item s uid idx it)))"
    using Cons.prems by (auto simp: store_item_tracks new_track_def)
  then show ?case using Cons.IH by simp
qed

lemma store_items_ids_mono:
  "set (map spotify_track_id (tracks s)) \<subseteq>
   set (map spotify_track_id (tracks (store_items s uid idx its)))"
  using store_items_prefix [of s uid idx its] by auto

lemma store_items_ids:
  "item_id ` set its \<subseteq> set (map spotify_track_id (tracks (store_items s uid idx its)))"
proof (induction its arbitrary: s idx)
  case Nil
  show ?case by simp
next
  case (Cons it its)
  have "item_id it \<in> set (map spotify_track_id (tracks (store_item s uid idx it)))"
    by (rule store_item_ids)
  then have "item_id it \<in>
      set (map spotify_track_id (tracks (store_items (store_item s uid idx it) uid (Suc idx) its)))"
    using store_items_ids_mono by blast
  then show ?case using Cons.IH [of "store_item s uid idx it" "Suc idx"] by simp
qed

lemma store_items_ranking:
  "\<exists>es. user_top_tracks (store_items s uid idx its) = user_top_tracks s @ es \<and>
        map ranking es =
          map (\<lambda>(i, it). (uid, track_pk (tracks (store_items s uid idx its)) (item_id it), Suc i))
            (enumerate idx its)"
proof (induction its arbitrary: s idx)
  case Nil
  show ?case by simp
next
  case (Cons it its)
  let ?m = "store_item s uid idx it"
  let ?f = "store_items ?m uid (Suc idx) its"
  obtain e where e: "user_top_tracks ?m = user_top_tracks s @ [e]"
    and re: "ranking e = (uid, track_pk (tracks ?m) (item_id it), Suc idx)"
    using store_item_ranking by blast
  obtain es where es: "user_top_tracks ?f = user_top_tracks ?m @ es"
    and res: "map ranking es =
          map (\<lambda>(i, it). (uid, track_pk (tracks ?f) (item_id it), Suc i)) (enumerate (Suc idx) its)"
    using Cons.IH [of ?m "Suc idx"] by blast
  obtain new where new: "tracks ?f = tracks ?m @ new"
    using store_items_prefix by blast
  have "track_pk (tracks ?f) (item_id it) = track_pk (tracks ?m) (item_id it)"
    using new track_pk_append [of "item_id it" "tracks ?m" new] store_item_ids [of it s uid idx]
    by simp
  then have "map ranking (e # es) =
          map (\<lambda>(i, it). (uid, track_pk (tracks ?f) (item_id it), Suc i)) (enumerate idx (it # its))"
    using re res by simp
  moreover have "user_top_tracks ?f = user_top_tracks s @ (e # es)"
    using e es by simp
  ultimately show ?case
    by (metis store_items.simps(2))
qed


subsection \<open>The second loop\<close>

lemma update_first_catalog:
  "map catalog (update_first P (\<lambda>t. t\<lparr>audio_features := a\<rparr>) ts) = map catalog ts"
  by (induction ts) (auto simp: catalog_def)

lemma store_features_tables:
  "store_features s afs = Inr s' \<Longrightarrow>
   user_top_tracks s' = user_top_tracks s \<and> map catalog (tracks s') = map catalog (tracks s)"
proof (induction afs arbitrary: s)
  case Nil
  then show ?case by simp
next
  case (Cons af afs)
  show ?case
  proof (cases "falsy af")
    case True
    then show ?thesis using Cons by simp
  next
    case False
    then obtain a where a: "af = Some a" by (cases af) (auto simp: falsy_def)
    show ?thesis
    proof (cases "af_id a")
      case None
      then show ?thesis using Cons.prems False a by simp
    next
      case (Some i)
      let ?m = "s\<lparr>tracks := update_first (\<lambda>t. spotify_track_id t = i)
                                (\<lambda>t. t\<lparr>audio_features := Some a\<rparr>) (tracks s)\<rparr>"
      have "store_features ?m afs = Inr s'"
        using Cons.prems False a Some by simp
      from Cons.IH [OF this] show ?thesis
        by (simp add: update_first_catalog)
    qed
  qed
qed

lemma fetch_audio_features_tables:
  "fetch_audio_features w s token items = (r, s') \<Longrightarrow>
   user_top_tracks s' = user_top_tracks s \<and> map catalog (tracks s') = map catalog (tracks s)"
  by (auto simp: fetch_audio_features_def get_audio_features_eq Let_def
      split: if_splits sum.splits option.splits dest: store_features_tables)

lemma api_top_tracks_tables:
  assumes "fetched_items w s uid limit = Some (k, items)"
    and "api_top_tracks w s uid limit = (r, s')"
  shows "\<exists>sa. tracks sa = tracks s \<and> user_top_tracks sa = user_top_tracks s \<and>
              user_top_tracks s' = user_top_tracks (store_items sa k 0 items) \<and>
              map catalog (tracks s') = map catalog (tracks (store_items sa k 0 items))"
proof -
  obtain u where u: "find_user s uid = Some u"
    using assms(1) by (auto simp: fetched_items_def split: option.splits)
  obtain token s1 where e: "ensure_valid_access_token w s Attached u = (Inr token, s1)"
    using assms(1) u by (auto simp: fetched_items_def split: prod.splits sum.splits)
  obtain b where b: "api_reply (send w (top_tracks_call token limit)) = Inr b"
    using assms(1) u e by (auto simp: fetched_items_def split: sum.splits)
  have i: "get_items b = Inr items" and k: "k = u_id u"
    using assms(1) u e b by (auto simp: fetched_items_def split: sum.splits)
  let ?sa = "s1\<lparr>calls := calls s1 @ [top_tracks_call token limit]\<rparr>"
  obtain r4 s4 where f: "fetch_audio_features w (store_items ?sa k 0 items) token items = (r4, s4)"
    by (cases "fetch_audio_features w (store_items ?sa k 0 items) token items") blast
  have "s' = s4"
    using assms(2) u e b i k f
    by (auto simp: api_top_tracks_def get_user_top_tracks_eq split: sum.splits)
  moreover have "tracks ?sa = tracks s \<and> user_top_tracks ?sa = user_top_tracks s"
    using ensure_valid_tables [OF e] by simp
  ultimately show ?thesis
    using fetch_audio_features_tables [OF f] by blast
qed

lemma filter_one:
  "distinct (map f xs) \<Longrightarrow> x \<in> set (map f xs) \<Longrightarrow> length (filter (\<lambda>t. f t = x) xs) = 1"
proof (induction xs)
  case Nil
  then show ?case by simp
next
  case (Cons a xs)
  show ?case
  proof (cases "f a = x")
    case True
    then have "\<forall>t \<in> set xs. f t \<noteq> x" using Cons.prems by (auto simp: image_iff)
    then have "filter (\<lambda>t. f t = x) xs = []" by (simp add: filter_empty_conv)
    then show ?thesis using True by simp
  next
    case False
    then show ?thesis using Cons by auto
  qed
qed

text \<open>
  C6. Two runs of \<^verbatim>\<open>api_top_tracks\<close> for the same user that both get as far as
  fetching the same item list, from a catalogue whose external ids are unique (the
  column is declared \<^verbatim>\<open>unique=True\<close>), whether the feature request of either run fails
  or succeeds. The ranking table ends as it began
  followed by the rows of the list twice, each time in list order with ranks 1, 2, ...,
  each row pointing at the catalogue row of its item. The catalogue holds exactly one
  row for the external id of every item. The second run adds no catalogue row and
  leaves key, external id, name, artist and album of every row as the first run left
  them; the first run leaves the rows it found in place; and the first loop alone,
  run on a catalogue that already has every id of the list, leaves the catalogue table
  exactly as it is.
\<close>

theorem ingestion_twice:
  assumes "distinct (map spotify_track_id (tracks s0))"
    and "fetched_items w1 s0 uid l1 = Some (k, items)"
    and "api_top_tracks w1 s0 uid l1 = (r1, s1)"
    and "fetched_items w2 s1 uid l2 = Some (k, items)"
    and "api_top_tracks w2 s1 uid l2 = (r2, s2)"
  shows "map ranking (user_top_tracks s2) =
           map ranking (user_top_tracks s0) @
           expected_entries (tracks s2) k items @ expected_entries (tracks s2) k items \<and>
         (\<forall>it \<in> set items.
            length (filter (\<lambda>t. spotify_track_id t = item_id it) (tracks s2)) = 1) \<and>
         distinct (map spotify_track_id (tracks s2)) \<and>
         map catalog (tracks s2) = map catalog (tracks s1) \<and>
         take (length (tracks s0)) (map catalog (tracks s1)) = map catalog (tracks s0) \<and>
         (\<forall>s. item_id ` set items \<subseteq> set (map spotify_track_id (tracks s)) \<longrightarrow>
              tracks (store_items s k 0 items) = tracks s)"
proof -
  obtain sa where sa: "tracks sa = tracks s0" "user_top_tracks sa = user_top_tracks s0"
    and u1: "user_top_tracks s1 = user_top_tracks (store_items sa k 0 items)"
    and c1: "map catalog (tracks s1) = map catalog (tracks (store_items sa k 0 items))"
    using api_top_tracks_tables [OF assms(2,3)] by blast
  obtain sb where sb: "tracks sb = tracks s1" "user_top_tracks sb = user_top_tracks s1"
    and u2: "user_top_tracks s2 = user_top_tracks (store_items sb k 0 items)"
    and c2: "map catalog (tracks s2) = map catalog (tracks (store_items sb k 0 items))"
    using api_top_tracks_tables [OF assms(4,5)] by blast
  let ?a = "store_items sa k 0 items"
  let ?b = "store_items sb k 0 items"
  have ids1: "map spotify_track_id (tracks s1) = map spotify_track_id (tracks ?a)"
    using c1 by (rule ids_catalog)
  have present: "item_id ` set items \<subseteq> set (map spotify_track_id (tracks sb))"
    using store_items_ids [of items sa k 0] ids1 sb(1) by simp
  have tb: "tracks ?b = tracks s1"
    using store_items_present [OF present] sb(1) by simp
  then have c21: "map catalog (tracks s2) = map catalog (tracks s1)"
    using c2 by simp
  have ids2: "map spotify_track_id (tracks s2) = map spotify_track_id (tracks ?a)"
    using c21 c1 ids_catalog by metis
  have d: "distinct (map spotify_track_id (tracks s2))"
    using store_items_distinct [of sa k 0 items] assms(1) sa(1) ids2 by simp
  have one: "\<forall>it \<in> set items.
      length (filter (\<lambda>t. spotify_track_id t = item_id it) (tracks s2)) = 1"
  proof
    fix it assume "it \<in> set items"
    then have "item_id it \<in> set (map spotify_track_id (tracks s2))"
      using store_items_ids [of items sa k 0] ids2 by auto
    then show "length (filter (\<lambda>t. spotify_track_id t = item_id it) (tracks s2)) = 1"
      using filter_one [OF d] by blast
  qed
  obtain e1 where e1: "user_top_tracks ?a = user_top_tracks sa @ e1"
    and r1: "map ranking e1 =
          map (\<lambda>(i, it). (k, track_pk (tracks ?a) (item_id it), Suc i)) (enumerate 0 items)"
    using store_items_ranking [of sa k 0 items] by blast
  obtain e2 where e2: "user_top_tracks ?b = user_top_tracks sb @ e2"
    and r2: "map ranking e2 =
          map (\<lambda>(i, it). (k, track_pk (tracks ?b) (item_id it), Suc i)) (enumerate 0 items)"
    using store_items_ranking [of sb k 0 items] by blast
  have pk1: "track_pk (tracks ?a) = track_pk (tracks s2)"
    using track_pk_catalog [of "tracks ?a" "tracks s2"] c21 c1 by auto
  have pk2: "track_pk (tracks ?b) = track_pk (tracks s2)"
    using track_pk_catalog [of "tracks ?b" "tracks s2"] c2 by auto
  have rank: "map ranking (user_top_tracks s2) =
           map ranking (user_top_tracks s0) @
           expected_entries (tracks s2) k items @ expected_entries (tracks s2) k items"
    using u2 e2 sb(2) u1 e1 sa(2) r1 r2 pk1 pk2
    by (simp add: expected_entries_def)
  obtain new where new: "tracks ?a = tracks sa @ new"
    using store_items_prefix by blast
  have "map catalog (tracks s1) = map catalog (tracks s0) @ map catalog new"
    using c1 new sa(1) by simp
  then have pre: "take (length (tracks s0)) (map catalog (tracks s1)) = map catalog (tracks s0)"
    by simp
  have ups: "\<forall>s. item_id ` set items \<subseteq> set (map spotify_track_id (tracks s)) \<longrightarrow>
              tracks (store_items s k 0 items) = tracks s"
    using store_items_present by blast
  show ?thesis
    using rank one d c21 pre ups by blast
qed

lemmas run_eval =
  pipeline_eval ensure_valid_access_token_def utcnow_def plus_seconds_def timedelta_def
  datetime_add_def datetime_min_def datetime_max_def
  open_api_def tune_def song_features_def top_tracks_call_def features_call_def
  after_first_run_def after_second_run_def fetched_items_def

text \<open>Two runs for the sample account against a provider listing two tracks.\<close>

theorem ingestion_twice_witness:
  "distinct (map spotify_track_id (tracks sample_state)) \<and>
   fetched_items (world_at 1400000000 open_api) sample_state ''alice'' 50 = Some (1, [song, tune]) \<and>
   api_top_tracks (world_at 1400000000 open_api) sample_state ''alice'' 50 =
     (Inr 2, after_first_run) \<and>
   fetched_items (world_at 1400000000 open_api) after_first_run ''alice'' 50 =
     Some (1, [song, tune]) \<and>
   api_top_tracks (world_at 1400000000 open_api) after_first_run ''alice'' 50 =
     (Inr 2, after_second_run) \<and>
   map ranking (user_top_tracks after_second_run) = [(1, 1, 1), (1, 2, 2), (1, 1, 1), (1, 2, 2)] \<and>
   map spotify_track_id (tracks after_second_run) = [''t1'', ''t2'']"
proof -
  have d: "distinct (map spotify_track_id (tracks sample_state))"
    by (simp add: sample_state_def)
  have f1: "fetched_items (world_at 1400000000 open_api) sample_state ''alice'' 50 =
      Some (1, [song, tune])"
    by (simp add: run_eval)
  have h1: "api_top_tracks (world_at 1400000000 open_api) sample_state ''alice'' 50 =
      (Inr 2, after_first_run)"
    by (simp add: run_eval)
  have f2: "fetched_items (world_at 1400000000 open_api) after_first_run ''alice'' 50 =
      Some (1, [song, tune])"
    by (simp add: run_eval)
  have h2: "api_top_tracks (world_at 1400000000 open_api) after_first_run ''alice'' 50 =
      (Inr 2, after_second_run)"
    by (simp add: run_eval)
  have c: "map ranking (user_top_tracks after_second_run) =
      [(1, 1, 1), (1, 2, 2), (1, 1, 1), (1, 2, 2)]"
    using ingestion_twice [OF d f1 h1 f2 h2]
    by (simp add: expected_entries_def track_pk_def after_second_run_def after_first_run_def
        sample_state_def song_def tune_def enumerate_eq_zip upt_rec)
  have i: "map spotify_track_id (tracks after_second_run) = [''t1'', ''t2'']"
    by (simp add: after_second_run_def after_first_run_def)
  show ?thesis
    by (intro conjI) (rule d f1 h1 f2 h2 c i)+
qed

end
